theory Spec2Isabelle
  imports Complex_Main "HOL-Library.Sublist"
begin

section \<open>JavaScript values of the worker\<close>

text \<open>
  The worker (\<^verbatim>\<open>src/index.ts\<close>) is one \<^verbatim>\<open>fetch\<close> handler. It reads the method, the
  path, three query parameters and a JSON body, and talks to the storage backend through
  \<^verbatim>\<open>s3.send\<close> and \<^verbatim>\<open>getSignedUrl\<close>. The values it handles are JavaScript values, so
  the model carries them as such.

  A JavaScript number is a double. Finite values are carried as exact rationals; the two
  places where rounding changes what the handler can observe (underflow to zero, overflow
  to \<^verbatim>\<open>Infinity\<close>) are written out in \<open>round_double\<close>. Rounding of the mantissa
  is not modelled: the handler only tests a number for truthiness and forwards it.
  The sign of zero is not kept (\<^verbatim>\<open>-0\<close> is falsy like \<^verbatim>\<open>0\<close>).
\<close>

datatype jsnum = NaN | PosInfinity | NegInfinity | Finite rat

datatype jsval =
    Undefined
  | Null
  | Bool bool
  | Num jsnum
  | Str string
  | Arr "jsval list"
  | Obj "(string \<times> jsval) list"

text \<open>An \<^verbatim>\<open>Error\<close> object, as far as the handler reads it: \<^verbatim>\<open>err.message\<close>, \<^verbatim>\<open>err.stack\<close>.\<close>

record js_error =
  message :: string
  stack :: string

text \<open>\<^verbatim>\<open>!v\<close> is \<open>\<not> truthy v\<close>.\<close>

fun truthy :: "jsval \<Rightarrow> bool" where
  "truthy Undefined = False"
| "truthy Null = False"
| "truthy (Bool b) = b"
| "truthy (Num n) = (n \<noteq> NaN \<and> n \<noteq> Finite 0)"
| "truthy (Str s) = (s \<noteq> [])"
| "truthy (Arr xs) = True"
| "truthy (Obj fs) = True"

subsection \<open>\<^verbatim>\<open>Number(string | null)\<close>\<close>

text \<open>
  \<^verbatim>\<open>Number(url.searchParams.get("partNumber"))\<close> applies ECMAScript's StringToNumber to
  the parameter, and gives \<^verbatim>\<open>0\<close> for \<^verbatim>\<open>null\<close>. The grammar (StringNumericLiteral):
  optional white space around either nothing (the value is 0), a signed decimal literal
  (\<^verbatim>\<open>Infinity\<close>, or digits with an optional fraction and exponent), or an unsigned
  \<^verbatim>\<open>0x\<close>, \<^verbatim>\<open>0o\<close> or \<^verbatim>\<open>0b\<close> integer; anything else is \<^verbatim>\<open>NaN\<close>.
  Strings are \<open>char list\<close>s, so the white space characters beyond one byte
  (U+FEFF, U+2028 and the like) are not in the model.
\<close>

definition is_ws :: "char \<Rightarrow> bool" where
  "is_ws c = (c \<in> set [CHR 0x09, CHR 0x0A, CHR 0x0B, CHR 0x0C, CHR 0x0D, CHR 0x20, CHR 0xA0])"

definition trim :: "string \<Rightarrow> string" where
  "trim s = rev (dropWhile is_ws (rev (dropWhile is_ws s)))"

definition digit_table :: "(char \<times> nat) list" where
  "digit_table = zip ''0123456789abcdefABCDEF''
     [0, 1, 2, 3, 4, 5, 6, 7, 8, 9, 10, 11, 12, 13, 14, 15, 10, 11, 12, 13, 14, 15]"

definition digit_in :: "nat \<Rightarrow> char \<Rightarrow> nat option" where
  "digit_in base c =
     (case map_of digit_table c of
        None \<Rightarrow> None
      | Some d \<Rightarrow> if d < base then Some d else None)"

fun digits_value :: "nat \<Rightarrow> string \<Rightarrow> nat \<Rightarrow> nat option" where
  "digits_value base [] acc = Some acc"
| "digits_value base (c # cs) acc =
     (case digit_in base c of
        None \<Rightarrow> None
      | Some d \<Rightarrow> digits_value base cs (acc * base + d))"

text \<open>One or more digits of the base, read as a natural number.\<close>

definition parse_digits :: "nat \<Rightarrow> string \<Rightarrow> nat option" where
  "parse_digits base s = (if s = [] then None else digits_value base s 0)"

text \<open>The text before the first character satisfying \<open>P\<close>, and the text after it if there is one.\<close>

definition split_at_first :: "(char \<Rightarrow> bool) \<Rightarrow> string \<Rightarrow> string \<times> string option" where
  "split_at_first P s =
     (case dropWhile (\<lambda>c. \<not> P c) s of
        [] \<Rightarrow> (s, None)
      | c # r \<Rightarrow> (takeWhile (\<lambda>c. \<not> P c) s, Some r))"

text \<open>SignedInteger of an ExponentPart.\<close>

definition parse_exponent :: "string \<Rightarrow> int option" where
  "parse_exponent s =
     (case s of
        [] \<Rightarrow> None
      | c # r \<Rightarrow>
          if c = CHR ''+'' then map_option int (parse_digits 10 r)
          else if c = CHR ''-'' then map_option (\<lambda>n. - int n) (parse_digits 10 r)
          else map_option int (parse_digits 10 s))"

text \<open>
  \<^verbatim>\<open>DecimalDigits . DecimalDigits?\<close>, \<^verbatim>\<open>. DecimalDigits\<close> or \<^verbatim>\<open>DecimalDigits\<close>: all the
  digits read as one natural number, and the number of digits after the point.
\<close>

definition parse_mantissa :: "string \<Rightarrow> (nat \<times> nat) option" where
  "parse_mantissa s =
     (case split_at_first (\<lambda>c. c = CHR ''.'') s of
        (ip, None) \<Rightarrow> map_option (\<lambda>n. (n, 0)) (parse_digits 10 ip)
      | (ip, Some fp) \<Rightarrow>
          if ip = [] then map_option (\<lambda>n. (n, length fp)) (parse_digits 10 fp)
          else if fp = [] then map_option (\<lambda>n. (n, 0)) (parse_digits 10 ip)
          else map_option (\<lambda>n. (n, length fp)) (parse_digits 10 (ip @ fp)))"

text \<open>
  The double nearest to a rational, at the two ends of the range: everything of magnitude
  at most \<open>2^-1075\<close> (half the least subnormal) is zero, everything from
  \<open>2^1024 - 2^970\<close> on is infinite.
\<close>

definition round_double :: "rat \<Rightarrow> jsnum" where
  "round_double r =
     (if \<bar>r\<bar> * 2 ^ 1075 \<le> 1 then Finite 0
      else if 2 ^ 1024 - 2 ^ 970 \<le> r then PosInfinity
      else if r \<le> - (2 ^ 1024 - 2 ^ 970) then NegInfinity
      else Finite r)"

definition scale10 :: "rat \<Rightarrow> int \<Rightarrow> rat" where
  "scale10 r e = (if 0 \<le> e then r * 10 ^ nat e else r / 10 ^ nat (- e))"

text \<open>StrUnsignedDecimalLiteral.\<close>

definition parse_unsigned :: "string \<Rightarrow> jsnum option" where
  "parse_unsigned s =
     (if s = ''Infinity'' then Some PosInfinity
      else case split_at_first (\<lambda>c. c = CHR ''e'' \<or> c = CHR ''E'') s of
        (m, None) \<Rightarrow>
          map_option (\<lambda>(n, f). round_double (scale10 (of_nat n) (- int f))) (parse_mantissa m)
      | (m, Some e) \<Rightarrow>
          (case parse_mantissa m of
             None \<Rightarrow> None
           | Some (n, f) \<Rightarrow>
               (case parse_exponent e of
                  None \<Rightarrow> None
                | Some x \<Rightarrow> Some (round_double (scale10 (of_nat n) (x - int f))))))"

fun negate :: "jsnum \<Rightarrow> jsnum" where
  "negate NaN = NaN"
| "negate PosInfinity = NegInfinity"
| "negate NegInfinity = PosInfinity"
| "negate (Finite r) = Finite (- r)"

text \<open>StrDecimalLiteral: an optional sign before the unsigned literal.\<close>

definition parse_decimal :: "string \<Rightarrow> jsnum option" where
  "parse_decimal s =
     (case s of
        [] \<Rightarrow> None
      | c # r \<Rightarrow>
          if c = CHR ''+'' then parse_unsigned r
          else if c = CHR ''-'' then map_option negate (parse_unsigned r)
          else parse_unsigned s)"

text \<open>NonDecimalIntegerLiteral: \<^verbatim>\<open>0x\<close>, \<^verbatim>\<open>0o\<close>, \<^verbatim>\<open>0b\<close> (either case) and digits of that base.\<close>

definition parse_nondecimal :: "string \<Rightarrow> nat option" where
  "parse_nondecimal s =
     (case s of
        c # x # r \<Rightarrow>
          if c \<noteq> CHR ''0'' then None
          else if x = CHR ''x'' \<or> x = CHR ''X'' then parse_digits 16 r
          else if x = CHR ''o'' \<or> x = CHR ''O'' then parse_digits 8 r
          else if x = CHR ''b'' \<or> x = CHR ''B'' then parse_digits 2 r
          else None
      | _ \<Rightarrow> None)"

definition StringToNumber :: "string \<Rightarrow> jsnum" where
  "StringToNumber s =
     (let t = trim s in
      if t = [] then Finite 0
      else case parse_nondecimal t of
        Some n \<Rightarrow> round_double (of_nat n)
      | None \<Rightarrow> (case parse_decimal t of Some v \<Rightarrow> v | None \<Rightarrow> NaN))"

text \<open>\<^verbatim>\<open>Number(x)\<close> for \<^verbatim>\<open>x: string | null\<close>; \<open>None\<close> is \<^verbatim>\<open>null\<close>.\<close>

definition Number_js :: "string option \<Rightarrow> jsnum" where
  "Number_js x = (case x of None \<Rightarrow> Finite 0 | Some s \<Rightarrow> StringToNumber s)"

section \<open>The runtime, requests and responses\<close>

text \<open>
  What the handler takes from the Workers runtime, as far as its result depends on it:
  \<^item> \<open>getters_on_prototype\<close>: whether \<^verbatim>\<open>status\<close> and \<^verbatim>\<open>headers\<close> of a
    \<^verbatim>\<open>Response\<close> are accessors on \<^verbatim>\<open>Response.prototype\<close> (the Fetch standard's Web IDL
    attributes; Workers with a compatibility date from 2022-01-31 on, flag
    \<^verbatim>\<open>workers_api_getters_setters_on_prototype\<close>) or own enumerable properties of each
    instance (Workers before that date). The repository's \<^verbatim>\<open>wrangler\<close> configuration,
    which fixes the compatibility date, is not among the sources, so this is a parameter.
    (The starter comment of the repository's first revision names \<^verbatim>\<open>wrangler.jsonc\<close>, the
    configuration file of projects created years after that date.) \<open>standard_runtime\<close>
    and \<open>legacy_runtime\<close> below are one runtime of each kind;
  \<^item> \<open>randomUUID\<close>: the string \<^verbatim>\<open>crypto.randomUUID()\<close> returns in this invocation;
  \<^item> \<open>type_error\<close>: the \<^verbatim>\<open>TypeError\<close> the engine throws, given a description of the
    operation that failed.
\<close>

record runtime =
  getters_on_prototype :: bool
  randomUUID :: string
  type_error :: "string \<Rightarrow> js_error"

text \<open>
  A request, as the handler reads it: \<^verbatim>\<open>request.method\<close>, \<^verbatim>\<open>url.pathname\<close>,
  \<^verbatim>\<open>url.searchParams\<close> (name and value pairs in the order of the query string) and the
  outcome of \<^verbatim>\<open>await request.json()\<close>: the parsed value, or the error it throws when the
  body is not JSON text.
\<close>

record request =
  "method" :: string
  pathname :: string
  searchParams :: "(string \<times> string) list"
  json :: "js_error + jsval"

text \<open>\<^verbatim>\<open>url.searchParams.get(name)\<close>: the first value under the name, \<^verbatim>\<open>null\<close> without one.\<close>

definition searchParams_get :: "(string \<times> string) list \<Rightarrow> string \<Rightarrow> string option" where
  "searchParams_get ps name = map_of ps name"

definition nullable :: "string option \<Rightarrow> jsval" where
  "nullable x = (case x of None \<Rightarrow> Null | Some s \<Rightarrow> Str s)"

definition optional :: "string option \<Rightarrow> jsval" where
  "optional x = (case x of None \<Rightarrow> Undefined | Some s \<Rightarrow> Str s)"

text \<open>
  A response body: none (\<^verbatim>\<open>null\<close>), a text, or the text \<^verbatim>\<open>JSON.stringify\<close> returns
  for a value (kept as the value; a field holding \<^verbatim>\<open>undefined\<close> is left out of that text).
\<close>

datatype body = NoBody | Text string | JSON_text jsval

record response =
  status :: nat
  headers :: "(string \<times> string) list"
  body :: body

text \<open>
  The \<^verbatim>\<open>ResponseInit\<close> dictionary; a member that is absent is \<open>None\<close>. The handler
  never sets \<^verbatim>\<open>statusText\<close>, which is left out.
\<close>

record response_init =
  init_status :: "nat option"
  init_headers :: "(string \<times> string) list option"

text \<open>
  \<^verbatim>\<open>new Response(body, init)\<close>: the status defaults to 200, the headers to none. (The
  \<^verbatim>\<open>Content-Type\<close> the runtime derives from a text body when \<open>init\<close> names none is not
  modelled; no property below reads it.)
\<close>

definition new_Response :: "body \<Rightarrow> response_init \<Rightarrow> response" where
  "new_Response b init =
     \<lparr>status = (case init_status init of None \<Rightarrow> 200 | Some s \<Rightarrow> s),
      headers = (case init_headers init of None \<Rightarrow> [] | Some h \<Rightarrow> h),
      body = b\<rparr>"

text \<open>
  \<^verbatim>\<open>headers.set(name, value)\<close>: replaces the value under the name, or appends the pair.
  Names are compared as written (the handler spells each name one way only).
\<close>

fun headers_set :: "(string \<times> string) list \<Rightarrow> string \<Rightarrow> string \<Rightarrow> (string \<times> string) list" where
  "headers_set [] name v = [(name, v)]"
| "headers_set ((k, x) # h) name v =
     (if k = name then (name, v) # h else (k, x) # headers_set h name v)"

definition headers_get :: "(string \<times> string) list \<Rightarrow> string \<Rightarrow> string option" where
  "headers_get h name = map_of h name"

text \<open>
  \<^verbatim>\<open>{ ...response }\<close>: object spread copies the own enumerable properties of its
  operand, reading each. With the attributes on the prototype a \<^verbatim>\<open>Response\<close> has none,
  and the spread is the empty dictionary; with instance properties it holds the
  response's status and headers.
\<close>

definition spread_Response :: "runtime \<Rightarrow> response \<Rightarrow> response_init" where
  "spread_Response rt r =
     (if getters_on_prototype rt then \<lparr>init_status = None, init_headers = None\<rparr>
      else \<lparr>init_status = Some (status r), init_headers = Some (headers r)\<rparr>)"

text \<open>
  \<^verbatim>\<open>
  function withCors(response: Response): Response {
    const headers = new Headers(response.headers);
    headers.set("Access-Control-Allow-Origin", "*");
    headers.set("Access-Control-Allow-Methods", "GET,POST,OPTIONS");
    headers.set("Access-Control-Allow-Headers", "Content-Type");
    return new Response(response.body, { ...response, headers });
  }
  \<close>
\<close>

definition withCors :: "runtime \<Rightarrow> response \<Rightarrow> response" where
  "withCors rt response =
     (let headers0 = headers response;
          headers1 = headers_set headers0 ''Access-Control-Allow-Origin'' ''*'';
          headers2 = headers_set headers1 ''Access-Control-Allow-Methods'' ''GET,POST,OPTIONS'';
          headers3 = headers_set headers2 ''Access-Control-Allow-Headers'' ''Content-Type''
      in new_Response (body response)
           ((spread_Response rt response)\<lparr>init_headers := Some headers3\<rparr>))"

section \<open>The storage backend\<close>

text \<open>
  The three commands the handler builds. \<open>Bucket\<close> is a string literal of the source;
  the other members are whatever values the handler puts there.
\<close>

record part =
  ETag :: jsval
  PartNumber :: jsval

datatype command =
    CreateMultipartUploadCommand string jsval
  | UploadPartCommand string jsval jsval jsval
  | CompleteMultipartUploadCommand string jsval jsval "part list"

fun Bucket :: "command \<Rightarrow> string" where
  "Bucket (CreateMultipartUploadCommand b k) = b"
| "Bucket (UploadPartCommand b k n u) = b"
| "Bucket (CompleteMultipartUploadCommand b k u ps) = b"

text \<open>
  A backend operation the handler invokes: \<^verbatim>\<open>s3.send(command)\<close> or
  \<^verbatim>\<open>getSignedUrl(s3, command, { expiresIn })\<close>. The handler returns the operations it
  invoked, in order, beside its response.
\<close>

datatype call = Send command | GetSignedUrl command nat

fun call_command :: "call \<Rightarrow> command" where
  "call_command (Send c) = c"
| "call_command (GetSignedUrl c t) = c"

text \<open>The members of an \<^verbatim>\<open>s3.send\<close> output that the handler reads; each may be undefined.\<close>

record send_output =
  UploadId :: "string option"
  Location :: "string option"

text \<open>
  The backend (the \<^verbatim>\<open>S3Client\<close> built from the environment's credentials, and what
  answers it): each operation returns its result or throws.
\<close>

record backend =
  send :: "command \<Rightarrow> js_error + send_output"
  getSignedUrl :: "command \<Rightarrow> nat \<Rightarrow> js_error + string"

section \<open>The handler\<close>

text \<open>
  Property access \<^verbatim>\<open>v.name\<close>. It throws a \<^verbatim>\<open>TypeError\<close> on \<^verbatim>\<open>undefined\<close> and
  \<^verbatim>\<open>null\<close>; an object gives its member or \<^verbatim>\<open>undefined\<close>; arrays and strings have
  \<^verbatim>\<open>length\<close>. The handler reads \<^verbatim>\<open>key\<close>, \<^verbatim>\<open>uploadId\<close>, \<^verbatim>\<open>parts\<close>, \<^verbatim>\<open>length\<close>,
  \<^verbatim>\<open>etag\<close> and \<^verbatim>\<open>partNumber\<close> only, none of which a prototype provides. An object
  that \<^verbatim>\<open>JSON.parse\<close> built has each name once.
\<close>

fun js_get :: "runtime \<Rightarrow> jsval \<Rightarrow> string \<Rightarrow> js_error + jsval" where
  "js_get rt Undefined name = Inl (type_error rt name)"
| "js_get rt Null name = Inl (type_error rt name)"
| "js_get rt (Obj fs) name = Inr (case map_of fs name of None \<Rightarrow> Undefined | Some v \<Rightarrow> v)"
| "js_get rt (Arr xs) name =
     Inr (if name = ''length'' then Num (Finite (of_nat (length xs))) else Undefined)"
| "js_get rt (Str s) name =
     Inr (if name = ''length'' then Num (Finite (of_nat (length s))) else Undefined)"
| "js_get rt (Bool b) name = Inr Undefined"
| "js_get rt (Num n) name = Inr Undefined"

text \<open>\<^verbatim>\<open>v?.length\<close>: \<^verbatim>\<open>undefined\<close> when \<open>v\<close> is \<^verbatim>\<open>undefined\<close> or \<^verbatim>\<open>null\<close>.\<close>

definition optional_length :: "runtime \<Rightarrow> jsval \<Rightarrow> js_error + jsval" where
  "optional_length rt v =
     (if v = Undefined \<or> v = Null then Inr Undefined else js_get rt v ''length'')"

text \<open>\<^verbatim>\<open>!body.key || !body.uploadId || !body.parts?.length\<close>, left to right.\<close>

definition invalid_body :: "runtime \<Rightarrow> jsval \<Rightarrow> js_error + bool" where
  "invalid_body rt b =
     (case js_get rt b ''key'' of
        Inl err \<Rightarrow> Inl err
      | Inr k \<Rightarrow>
          if \<not> truthy k then Inr True
          else
            (case js_get rt b ''uploadId'' of
               Inl err \<Rightarrow> Inl err
             | Inr u \<Rightarrow>
                 if \<not> truthy u then Inr True
                 else
                   (case js_get rt b ''parts'' of
                      Inl err \<Rightarrow> Inl err
                    | Inr ps \<Rightarrow>
                        (case optional_length rt ps of
                           Inl err \<Rightarrow> Inl err
                         | Inr n \<Rightarrow> Inr (\<not> truthy n)))))"

text \<open>
  \<^verbatim>\<open>parts.map(p => ({ ETag: p.etag, PartNumber: p.partNumber }))\<close> over the elements of
  an array: one entry per element, in the array's order; it throws where an element is
  \<^verbatim>\<open>null\<close>.
\<close>

fun map_parts :: "runtime \<Rightarrow> jsval list \<Rightarrow> js_error + part list" where
  "map_parts rt [] = Inr []"
| "map_parts rt (p # ps) =
     (case js_get rt p ''etag'' of
        Inl err \<Rightarrow> Inl err
      | Inr e \<Rightarrow>
          (case js_get rt p ''partNumber'' of
             Inl err \<Rightarrow> Inl err
           | Inr n \<Rightarrow>
               (case map_parts rt ps of
                  Inl err \<Rightarrow> Inl err
                | Inr rest \<Rightarrow> Inr (\<lparr>ETag = e, PartNumber = n\<rparr> # rest))))"

text \<open>\<^verbatim>\<open>body.parts.map(...)\<close>: only an array has \<^verbatim>\<open>map\<close>; calling it on anything else throws.\<close>

definition parts_map :: "runtime \<Rightarrow> jsval \<Rightarrow> js_error + part list" where
  "parts_map rt v =
     (case v of
        Arr xs \<Rightarrow> map_parts rt xs
      | _ \<Rightarrow> Inl (type_error rt ''map''))"

abbreviation json_headers :: "(string \<times> string) list" where
  "json_headers \<equiv> [(''Content-Type'', ''application/json'')]"

text \<open>
  The three branches of the \<^verbatim>\<open>try\<close> block. Each returns the response it returns, or
  the error it throws, and the backend operations it invoked.
  \<^verbatim>\<open>
  const key = `uploads/${crypto.randomUUID()}.mp4`;
  const command = new CreateMultipartUploadCommand({ Bucket: "large-video-uploads", Key: key });
  const res = await s3.send(command);
  return withCors(new Response(JSON.stringify({ uploadId: res.UploadId, key }),
    { headers: { "Content-Type": "application/json" } }));
  \<close>
\<close>

definition initiate :: "runtime \<Rightarrow> backend \<Rightarrow> (js_error + response) \<times> call list" where
  "initiate rt s3 =
     (let key = ''uploads/'' @ randomUUID rt @ ''.mp4'';
          command = CreateMultipartUploadCommand ''large-video-uploads'' (Str key)
      in case send s3 command of
           Inl err \<Rightarrow> (Inl err, [Send command])
         | Inr res \<Rightarrow>
             (Inr (withCors rt
                (new_Response
                   (JSON_text (Obj [(''uploadId'', optional (UploadId res)), (''key'', Str key)]))
                   \<lparr>init_status = None, init_headers = Some json_headers\<rparr>)),
              [Send command]))"

text \<open>
  \<^verbatim>\<open>
  const key = url.searchParams.get("key");
  const uploadId = url.searchParams.get("uploadId");
  const partNumber = Number(url.searchParams.get("partNumber"));
  if (!key || !uploadId || !partNumber) {
    return withCors(new Response("Missing parameters", { status: 400 }));
  }
  const command = new UploadPartCommand({ Bucket: "large-video=uploads", Key: key,
    PartNumber: partNumber, UploadId: uploadId });
  const signedUrl = await getSignedUrl(s3, command, { expiresIn: 3600 });
  return withCors(new Response(JSON.stringify({ signedUrl }),
    { headers: { "Content-Type": "application/json" } }));
  \<close>
\<close>

definition sign_part :: "runtime \<Rightarrow> backend \<Rightarrow> request \<Rightarrow> (js_error + response) \<times> call list" where
  "sign_part rt s3 rq =
     (let key = nullable (searchParams_get (searchParams rq) ''key'');
          uploadId = nullable (searchParams_get (searchParams rq) ''uploadId'');
          partNumber = Num (Number_js (searchParams_get (searchParams rq) ''partNumber''))
      in if \<not> truthy key \<or> \<not> truthy uploadId \<or> \<not> truthy partNumber then
           (Inr (withCors rt
              (new_Response (Text ''Missing parameters'')
                 \<lparr>init_status = Some 400, init_headers = None\<rparr>)), [])
         else
           (let command = UploadPartCommand ''large-video=uploads'' key partNumber uploadId
            in case getSignedUrl s3 command 3600 of
                 Inl err \<Rightarrow> (Inl err, [GetSignedUrl command 3600])
               | Inr signedUrl \<Rightarrow>
                   (Inr (withCors rt
                      (new_Response (JSON_text (Obj [(''signedUrl'', Str signedUrl)]))
                         \<lparr>init_status = None, init_headers = Some json_headers\<rparr>)),
                    [GetSignedUrl command 3600])))"

text \<open>
  \<^verbatim>\<open>
  const body = (await request.json()) as CompleteUploadRequest;
  if (!body.key || !body.uploadId || !body.parts?.length) {
    return withCors(new Response("Invalid request body", { status: 400 }));
  }
  const command = new CompleteMultipartUploadCommand({
    Bucket: "large-video-uploads", Key: body.key, UploadId: body.uploadId,
    MultipartUpload: { Parts: body.parts.map(p => ({ ETag: p.etag, PartNumber: p.partNumber })) },
  });
  const result = await s3.send(command);
  return withCors(new Response(JSON.stringify({ location: result.Location, key: body.key }),
    { headers: { "Content-Type": "application/json" } }));
  \<close>
  The cast \<^verbatim>\<open>as CompleteUploadRequest\<close> checks nothing: \<open>b\<close> is any parsed value. After
  the guard \<^verbatim>\<open>body\<close> is neither \<^verbatim>\<open>null\<close> nor \<^verbatim>\<open>undefined\<close>, so reading its members again
  cannot throw; the model reads them with \<open>member\<close>.
\<close>

definition member :: "jsval \<Rightarrow> string \<Rightarrow> jsval" where
  "member v name =
     (case v of
        Obj fs \<Rightarrow> (case map_of fs name of None \<Rightarrow> Undefined | Some x \<Rightarrow> x)
      | Arr xs \<Rightarrow> if name = ''length'' then Num (Finite (of_nat (length xs))) else Undefined
      | Str s \<Rightarrow> if name = ''length'' then Num (Finite (of_nat (length s))) else Undefined
      | _ \<Rightarrow> Undefined)"

definition complete :: "runtime \<Rightarrow> backend \<Rightarrow> request \<Rightarrow> (js_error + response) \<times> call list" where
  "complete rt s3 rq =
     (case json rq of
        Inl err \<Rightarrow> (Inl err, [])
      | Inr b \<Rightarrow>
          (case invalid_body rt b of
             Inl err \<Rightarrow> (Inl err, [])
           | Inr True \<Rightarrow>
               (Inr (withCors rt
                  (new_Response (Text ''Invalid request body'')
                     \<lparr>init_status = Some 400, init_headers = None\<rparr>)), [])
           | Inr False \<Rightarrow>
               (case parts_map rt (member b ''parts'') of
                  Inl err \<Rightarrow> (Inl err, [])
                | Inr ps \<Rightarrow>
                    (let command = CompleteMultipartUploadCommand ''large-video-uploads''
                           (member b ''key'') (member b ''uploadId'') ps
                     in case send s3 command of
                          Inl err \<Rightarrow> (Inl err, [Send command])
                        | Inr result \<Rightarrow>
                            (Inr (withCors rt
                               (new_Response
                                  (JSON_text (Obj [(''location'', optional (Location result)),
                                                   (''key'', member b ''key'')]))
                                  \<lparr>init_status = None, init_headers = Some json_headers\<rparr>)),
                             [Send command])))))"

text \<open>The body of the \<^verbatim>\<open>try\<close> block: the three routes, and \<^verbatim>\<open>Not found\<close> for any other path.\<close>

definition try_block :: "runtime \<Rightarrow> backend \<Rightarrow> request \<Rightarrow> (js_error + response) \<times> call list" where
  "try_block rt s3 rq =
     (if pathname rq = ''/initiate'' then initiate rt s3
      else if pathname rq = ''/sign-part'' then sign_part rt s3 rq
      else if pathname rq = ''/complete'' then complete rt s3 rq
      else (Inr (withCors rt
              (new_Response (Text ''Not found'')
                 \<lparr>init_status = Some 404, init_headers = None\<rparr>)), []))"

text \<open>
  \<^verbatim>\<open>
  catch (err: any) {
    return withCors(new Response(JSON.stringify({ error: err.message, stack: err.stack }),
      { status: 500, headers: { "Content-Type": "application/json" } }));
  }
  \<close>
\<close>

definition catch_handler :: "runtime \<Rightarrow> js_error \<Rightarrow> response" where
  "catch_handler rt err =
     withCors rt
       (new_Response (JSON_text (Obj [(''error'', Str (message err)), (''stack'', Str (stack err))]))
          \<lparr>init_status = Some 500, init_headers = Some json_headers\<rparr>)"

abbreviation cors_headers :: "(string \<times> string) list" where
  "cors_headers \<equiv>
     [(''Access-Control-Allow-Origin'', ''*''),
      (''Access-Control-Allow-Methods'', ''GET,POST,OPTIONS''),
      (''Access-Control-Allow-Headers'', ''Content-Type'')]"

text \<open>
  \<^verbatim>\<open>fetch(request, env)\<close>: the preflight answer for \<^verbatim>\<open>OPTIONS\<close>, before the client is
  built; otherwise the \<^verbatim>\<open>try\<close> block, and the \<^verbatim>\<open>catch\<close> handler on whatever it throws.
  The result is the response and the backend operations invoked on the way.
\<close>

definition fetch :: "runtime \<Rightarrow> backend \<Rightarrow> request \<Rightarrow> response \<times> call list" where
  "fetch rt s3 rq =
     (if method rq = ''OPTIONS'' then
        (new_Response NoBody \<lparr>init_status = None, init_headers = Some cors_headers\<rparr>, [])
      else case try_block rt s3 rq of
        (Inr r, calls) \<Rightarrow> (r, calls)
      | (Inl err, calls) \<Rightarrow> (catch_handler rt err, calls))"

section \<open>Vocabulary of the properties\<close>

text \<open>The member \<open>name\<close> of the JSON object a response carries, as a client reads it.\<close>

definition response_member :: "response \<Rightarrow> string \<Rightarrow> jsval" where
  "response_member r name = (case body r of JSON_text v \<Rightarrow> member v name | _ \<Rightarrow> Undefined)"

definition is_2xx :: "nat \<Rightarrow> bool" where
  "is_2xx s = (200 \<le> s \<and> s < 300)"

definition is_4xx :: "nat \<Rightarrow> bool" where
  "is_4xx s = (400 \<le> s \<and> s < 500)"

definition is_5xx :: "nat \<Rightarrow> bool" where
  "is_5xx s = (500 \<le> s \<and> s < 600)"

text \<open>A parts list is ascending when its part numbers are numbers in non-decreasing order.\<close>

fun js_le :: "jsval \<Rightarrow> jsval \<Rightarrow> bool" where
  "js_le (Num (Finite a)) (Num (Finite b)) = (a \<le> b)"
| "js_le x y = False"

definition ascending :: "part list \<Rightarrow> bool" where
  "ascending ps = sorted_wrt js_le (map PartNumber ps)"

text \<open>The entry \<^verbatim>\<open>{ ETag: p.etag, PartNumber: p.partNumber }\<close> of one manifest element.\<close>

definition to_part :: "jsval \<Rightarrow> part" where
  "to_part p = \<lparr>ETag = member p ''etag'', PartNumber = member p ''partNumber''\<rparr>"

text \<open>The error a backend operation raises, if it raises one.\<close>

fun raised :: "backend \<Rightarrow> call \<Rightarrow> js_error option" where
  "raised s3 (Send c) = (case send s3 c of Inl err \<Rightarrow> Some err | Inr res \<Rightarrow> None)"
| "raised s3 (GetSignedUrl c t) =
     (case getSignedUrl s3 c t of Inl err \<Rightarrow> Some err | Inr url \<Rightarrow> None)"

section \<open>Concrete runtimes, backends and requests\<close>

definition example_type_error :: "string \<Rightarrow> js_error" where
  "example_type_error name =
     \<lparr>message = ''TypeError: '' @ name, stack = ''TypeError: '' @ name @ '' at fetch''\<rparr>"

definition standard_runtime :: runtime where
  "standard_runtime =
     \<lparr>getters_on_prototype = True,
      randomUUID = ''123e4567-e89b-42d3-a456-426614174000'',
      type_error = example_type_error\<rparr>"

definition legacy_runtime :: runtime where
  "legacy_runtime =
     \<lparr>getters_on_prototype = False,
      randomUUID = ''123e4567-e89b-42d3-a456-426614174000'',
      type_error = example_type_error\<rparr>"

definition stub_backend :: backend where
  "stub_backend =
     \<lparr>send = (\<lambda>c. Inr \<lparr>UploadId = Some ''U1'',
                          Location = Some ''https://r2.example/uploads/abc.mp4''\<rparr>),
      getSignedUrl = (\<lambda>c t. Inr ''https://r2.example/signed'')\<rparr>"

definition session_not_found :: js_error where
  "session_not_found =
     \<lparr>message = ''session not found'', stack = ''Error: session not found at send''\<rparr>"

definition failing_backend :: backend where
  "failing_backend =
     \<lparr>send = (\<lambda>c. Inl session_not_found),
      getSignedUrl = (\<lambda>c t. Inl session_not_found)\<rparr>"

definition syntax_error :: js_error where
  "syntax_error =
     \<lparr>message = ''Unexpected token o in JSON at position 1'',
      stack = ''SyntaxError: Unexpected token o in JSON at position 1''\<rparr>"

definition options_request :: request where
  "options_request =
     \<lparr>method = ''OPTIONS'', pathname = ''/complete'', searchParams = [], json = Inl syntax_error\<rparr>"

definition initiate_request :: request where
  "initiate_request =
     \<lparr>method = ''POST'', pathname = ''/initiate'', searchParams = [], json = Inl syntax_error\<rparr>"

definition sign_request :: "string \<Rightarrow> request" where
  "sign_request n =
     \<lparr>method = ''GET'', pathname = ''/sign-part'',
      searchParams = [(''key'', ''uploads/abc.mp4''), (''uploadId'', ''U1''), (''partNumber'', n)],
      json = Inl syntax_error\<rparr>"

definition manifest :: "jsval \<Rightarrow> jsval list \<Rightarrow> jsval" where
  "manifest k ps = Obj [(''key'', k), (''uploadId'', Str ''U1''), (''parts'', Arr ps)]"

definition manifest_entry :: "string \<Rightarrow> rat \<Rightarrow> jsval" where
  "manifest_entry e n = Obj [(''etag'', Str e), (''partNumber'', Num (Finite n))]"

abbreviation one_part_manifest :: jsval where
  "one_part_manifest \<equiv> manifest (Str ''uploads/abc.mp4'') [manifest_entry ''e1'' 1]"

abbreviation reversed_manifest :: jsval where
  "reversed_manifest \<equiv>
     manifest (Str ''uploads/abc.mp4'') [manifest_entry ''e2'' 2, manifest_entry ''e1'' 1]"

abbreviation empty_key_manifest :: jsval where
  "empty_key_manifest \<equiv> manifest (Str '''') [manifest_entry ''e1'' 1]"

abbreviation no_parts_manifest :: jsval where
  "no_parts_manifest \<equiv> manifest (Str ''uploads/abc.mp4'') []"

definition complete_request :: "jsval \<Rightarrow> request" where
  "complete_request b =
     \<lparr>method = ''POST'', pathname = ''/complete'', searchParams = [], json = Inr b\<rparr>"

definition unparsable_complete_request :: request where
  "unparsable_complete_request =
     \<lparr>method = ''POST'', pathname = ''/complete'', searchParams = [], json = Inl syntax_error\<rparr>"

section \<open>Facts about the building blocks\<close>

subsection \<open>Numbers\<close>

lemma Number_js_null: "Number_js None = Finite 0"
  by (simp add: Number_js_def)

lemma round_double_mid: "1 \<le> \<bar>r\<bar> \<Longrightarrow> \<bar>r\<bar> \<le> 2 ^ 53 \<Longrightarrow> round_double r = Finite r"
proof -
  assume a: "1 \<le> \<bar>r\<bar>" and b: "\<bar>r\<bar> \<le> 2 ^ 53"
  have p: "(1::rat) < 2 ^ 1075" by (rule one_less_power) simp_all
  have "1 * 1 < \<bar>r\<bar> * 2 ^ 1075" using a p by (intro mult_le_less_imp_less) simp_all
  hence n1: "\<not> \<bar>r\<bar> * 2 ^ 1075 \<le> 1" by simp
  have "(2::rat) ^ 970 + 2 ^ 53 \<le> 2 ^ 970 + 2 ^ 970" by (intro add_left_mono power_increasing) simp_all
  also have "\<dots> = 2 ^ 971" by simp
  also have "\<dots> < 2 ^ 1024" by (rule power_strict_increasing) simp_all
  finally have q: "(2::rat) ^ 53 < 2 ^ 1024 - 2 ^ 970" by simp
  have "\<bar>r\<bar> < 2 ^ 1024 - 2 ^ 970" using b q by simp
  hence "\<not> 2 ^ 1024 - 2 ^ 970 \<le> r" "\<not> r \<le> - (2 ^ 1024 - 2 ^ 970)" by linarith+
  with n1 show ?thesis by (simp add: round_double_def)
qed

lemma round_double_zero: "round_double 0 = Finite 0"
  by (simp add: round_double_def)

lemma parse_digits_0: "parse_digits 10 ''0'' = Some 0"
  by (simp add: parse_digits_def digit_in_def digit_table_def)

lemma parse_digits_1: "parse_digits 10 ''1'' = Some 1"
  by (simp add: parse_digits_def digit_in_def digit_table_def)

lemma parse_unsigned_0: "parse_unsigned ''0'' = Some (Finite 0)"
  by (simp add: parse_unsigned_def parse_mantissa_def split_at_first_def parse_digits_0
      scale10_def round_double_zero)

lemma parse_unsigned_1: "parse_unsigned ''1'' = Some (Finite 1)"
  by (simp add: parse_unsigned_def parse_mantissa_def split_at_first_def parse_digits_1
      scale10_def round_double_mid)

lemma Number_js_0: "Number_js (Some ''0'') = Finite 0"
  by (simp add: Number_js_def StringToNumber_def trim_def is_ws_def parse_nondecimal_def
      parse_decimal_def parse_unsigned_0)

lemma Number_js_1: "Number_js (Some ''1'') = Finite 1"
  by (simp add: Number_js_def StringToNumber_def trim_def is_ws_def parse_nondecimal_def
      parse_decimal_def parse_unsigned_1)

lemma Number_js_minus_1: "Number_js (Some ''-1'') = Finite (- 1)"
  by (simp add: Number_js_def StringToNumber_def trim_def is_ws_def parse_nondecimal_def
      parse_decimal_def parse_unsigned_1)

lemma Number_js_abc: "Number_js (Some ''abc'') = NaN"
  by (simp add: Number_js_def StringToNumber_def trim_def is_ws_def parse_nondecimal_def
      parse_decimal_def parse_unsigned_def split_at_first_def parse_mantissa_def
      parse_digits_def digit_in_def digit_table_def)

subsection \<open>Responses\<close>

lemma truthy_nullable: "truthy (nullable x) = (x \<noteq> None \<and> x \<noteq> Some [])"
  by (cases x) (simp_all add: nullable_def)

lemma map_of_headers_set: "map_of (headers_set h name v) = (map_of h)(name \<mapsto> v)"
  by (induction h name v rule: headers_set.induct) auto

lemma status_withCors:
  "status (withCors rt r) = (if getters_on_prototype rt then 200 else status r)"
  by (simp add: withCors_def new_Response_def spread_Response_def)

lemma body_withCors: "body (withCors rt r) = body r"
  by (simp add: withCors_def new_Response_def)

lemma headers_withCors:
  "headers (withCors rt r) =
     headers_set (headers_set (headers_set (headers r)
       ''Access-Control-Allow-Origin'' ''*'')
       ''Access-Control-Allow-Methods'' ''GET,POST,OPTIONS'')
       ''Access-Control-Allow-Headers'' ''Content-Type''"
  by (simp add: withCors_def new_Response_def)

lemma cors_withCors:
  "headers_get (headers (withCors rt r)) ''Access-Control-Allow-Origin'' = Some ''*''"
  "headers_get (headers (withCors rt r)) ''Access-Control-Allow-Methods'' = Some ''GET,POST,OPTIONS''"
  "headers_get (headers (withCors rt r)) ''Access-Control-Allow-Headers'' = Some ''Content-Type''"
  by (simp_all add: headers_get_def headers_withCors map_of_headers_set)

lemma try_block_returns_withCors:
  "try_block rt s3 rq = (Inr r, calls) \<Longrightarrow> \<exists>r0. r = withCors rt r0"
  by (auto simp: try_block_def initiate_def sign_part_def complete_def Let_def
      split: if_splits sum.splits bool.splits)

lemma try_block_one_call: "length (snd (try_block rt s3 rq)) \<le> 1"
  by (auto simp: try_block_def initiate_def sign_part_def complete_def Let_def
      split: if_splits sum.splits bool.splits)


subsection \<open>The handler's branches\<close>

lemma js_get_member: "v \<noteq> Null \<Longrightarrow> v \<noteq> Undefined \<Longrightarrow> js_get rt v name = Inr (member v name)"
  by (cases v) (simp_all add: member_def)

lemma optional_length_member: "optional_length rt v = Inr (member v ''length'')"
  by (cases v) (simp_all add: optional_length_def member_def)

lemma invalid_body_member:
  "b \<noteq> Null \<Longrightarrow> b \<noteq> Undefined \<Longrightarrow>
   invalid_body rt b =
     Inr (\<not> truthy (member b ''key'') \<or> \<not> truthy (member b ''uploadId'')
          \<or> \<not> truthy (member (member b ''parts'') ''length''))"
  by (simp add: invalid_body_def js_get_member optional_length_member)

lemma invalid_body_null: "invalid_body rt Null = Inl (type_error rt ''key'')"
  by (simp add: invalid_body_def)

lemma map_parts_to_part:
  "list_all (\<lambda>p. p \<noteq> Null \<and> p \<noteq> Undefined) xs \<Longrightarrow> map_parts rt xs = Inr (map to_part xs)"
  by (induction xs) (simp_all add: js_get_member to_part_def)

lemma fetch_not_options:
  "method rq \<noteq> ''OPTIONS'' \<Longrightarrow>
   fetch rt s3 rq =
     (case try_block rt s3 rq of
        (Inr r, calls) \<Rightarrow> (r, calls)
      | (Inl err, calls) \<Rightarrow> (catch_handler rt err, calls))"
  by (simp add: fetch_def)

lemma try_block_initiate: "pathname rq = ''/initiate'' \<Longrightarrow> try_block rt s3 rq = initiate rt s3"
  by (simp add: try_block_def)

lemma try_block_sign_part:
  "pathname rq = ''/sign-part'' \<Longrightarrow> try_block rt s3 rq = sign_part rt s3 rq"
  by (simp add: try_block_def)

lemma try_block_complete:
  "pathname rq = ''/complete'' \<Longrightarrow> try_block rt s3 rq = complete rt s3 rq"
  by (simp add: try_block_def)

lemma status_catch_handler:
  "status (catch_handler rt err) = (if getters_on_prototype rt then 200 else 500)"
  by (simp add: catch_handler_def status_withCors new_Response_def)

lemma body_catch_handler:
  "body (catch_handler rt err) =
     JSON_text (Obj [(''error'', Str (message err)), (''stack'', Str (stack err))])"
  by (simp add: catch_handler_def body_withCors new_Response_def)

lemma sign_part_rejected:
  assumes "searchParams_get (searchParams rq) ''key'' \<in> {None, Some []}
         \<or> searchParams_get (searchParams rq) ''uploadId'' \<in> {None, Some []}
         \<or> Number_js (searchParams_get (searchParams rq) ''partNumber'') \<in> {NaN, Finite 0}"
  shows "sign_part rt s3 rq =
     (Inr (withCors rt (new_Response (Text ''Missing parameters'')
        \<lparr>init_status = Some 400, init_headers = None\<rparr>)), [])"
  using assms by (auto simp: sign_part_def Let_def truthy_nullable)

lemma sign_part_forwarded:
  assumes "searchParams_get (searchParams rq) ''key'' = Some k" "k \<noteq> []"
    and "searchParams_get (searchParams rq) ''uploadId'' = Some u" "u \<noteq> []"
    and "Number_js (searchParams_get (searchParams rq) ''partNumber'') = n"
    and "n \<noteq> NaN" "n \<noteq> Finite 0"
  shows "snd (sign_part rt s3 rq) =
     [GetSignedUrl (UploadPartCommand ''large-video=uploads'' (Str k) (Num n) (Str u)) 3600]"
  using assms by (auto simp: sign_part_def Let_def nullable_def split: sum.splits)

lemma complete_rejected:
  assumes "json rq = Inr b" "b \<noteq> Null" "b \<noteq> Undefined"
    and "\<not> truthy (member b ''key'') \<or> \<not> truthy (member b ''uploadId'')
         \<or> \<not> truthy (member (member b ''parts'') ''length'')"
  shows "complete rt s3 rq =
     (Inr (withCors rt (new_Response (Text ''Invalid request body'')
        \<lparr>init_status = Some 400, init_headers = None\<rparr>)), [])"
  using assms by (simp add: complete_def invalid_body_member)

lemma truthy_length_Arr: "truthy (member (Arr xs) ''length'') = (xs \<noteq> [])"
  by (simp add: member_def)

lemma complete_forwarded:
  assumes "json rq = Inr b" "b \<noteq> Null" "b \<noteq> Undefined"
    and "truthy (member b ''key'')" "truthy (member b ''uploadId'')"
    and "member b ''parts'' = Arr xs" "xs \<noteq> []"
    and "list_all (\<lambda>p. p \<noteq> Null \<and> p \<noteq> Undefined) xs"
  shows "snd (complete rt s3 rq) =
     [Send (CompleteMultipartUploadCommand ''large-video-uploads''
        (member b ''key'') (member b ''uploadId'') (map to_part xs))]"
  using assms
  by (simp add: complete_def invalid_body_member parts_map_def map_parts_to_part
      truthy_length_Arr Let_def split: sum.splits)

lemma backend_error_caught:
  assumes "method rq \<noteq> ''OPTIONS''" and "snd (try_block rt s3 rq) = [c]"
    and "raised s3 c = Some err"
  shows "fetch rt s3 rq = (catch_handler rt err, [c])"
  using assms
  by (auto simp: fetch_def try_block_def initiate_def sign_part_def complete_def Let_def
      split: if_splits sum.splits bool.splits)


lemma initiate_calls:
  "snd (initiate rt s3) =
     [Send (CreateMultipartUploadCommand ''large-video-uploads''
        (Str (''uploads/'' @ randomUUID rt @ ''.mp4'')))]"
  by (simp add: initiate_def Let_def split: sum.splits)

lemma initiate_ok:
  assumes "send s3 (CreateMultipartUploadCommand ''large-video-uploads''
        (Str (''uploads/'' @ randomUUID rt @ ''.mp4''))) = Inr res"
  shows "fst (initiate rt s3) =
     Inr (withCors rt (new_Response
       (JSON_text (Obj [(''uploadId'', optional (UploadId res)),
                        (''key'', Str (''uploads/'' @ randomUUID rt @ ''.mp4''))]))
       \<lparr>init_status = None, init_headers = Some json_headers\<rparr>))"
  using assms by (simp add: initiate_def Let_def)

lemma snd_fetch_not_options:
  "method rq \<noteq> ''OPTIONS'' \<Longrightarrow> snd (fetch rt s3 rq) = snd (try_block rt s3 rq)"
  by (simp add: fetch_def split: prod.splits sum.splits)

lemma fst_fetch_returned:
  "method rq \<noteq> ''OPTIONS'' \<Longrightarrow> fst (try_block rt s3 rq) = Inr r \<Longrightarrow> fst (fetch rt s3 rq) = r"
  by (cases "try_block rt s3 rq") (simp add: fetch_def)

lemma fst_fetch_thrown:
  "method rq \<noteq> ''OPTIONS'' \<Longrightarrow> fst (try_block rt s3 rq) = Inl err \<Longrightarrow>
   fst (fetch rt s3 rq) = catch_handler rt err"
  by (cases "try_block rt s3 rq") (simp add: fetch_def)

lemma initiate_request_route:
  "method initiate_request \<noteq> ''OPTIONS''" "pathname initiate_request = ''/initiate''"
  by (simp_all add: initiate_request_def)

lemma searchParams_sign_request:
  "searchParams_get (searchParams (sign_request n)) ''key'' = Some ''uploads/abc.mp4''"
  "searchParams_get (searchParams (sign_request n)) ''uploadId'' = Some ''U1''"
  "searchParams_get (searchParams (sign_request n)) ''partNumber'' = Some n"
  by (simp_all add: sign_request_def searchParams_get_def)

lemma sign_request_route:
  "method (sign_request n) \<noteq> ''OPTIONS''" "pathname (sign_request n) = ''/sign-part''"
  by (simp_all add: sign_request_def)

lemma complete_request_route:
  "method (complete_request b) \<noteq> ''OPTIONS''" "pathname (complete_request b) = ''/complete''"
  "json (complete_request b) = Inr b"
  by (simp_all add: complete_request_def)

lemma member_manifest:
  "member (manifest k ps) ''key'' = k"
  "member (manifest k ps) ''uploadId'' = Str ''U1''"
  "member (manifest k ps) ''parts'' = Arr ps"
  by (simp_all add: manifest_def member_def)

lemma manifest_not_null: "manifest k ps \<noteq> Null" "manifest k ps \<noteq> Undefined"
  by (simp_all add: manifest_def)

lemma manifest_entry_not_null: "manifest_entry e n \<noteq> Null" "manifest_entry e n \<noteq> Undefined"
  by (simp_all add: manifest_entry_def)

lemma to_part_manifest_entry:
  "to_part (manifest_entry e n) = \<lparr>ETag = Str e, PartNumber = Num (Finite n)\<rparr>"
  by (simp add: to_part_def manifest_entry_def member_def)

lemma fetch_sign_request_minus_1:
  "fetch rt stub_backend (sign_request ''-1'') =
     (withCors rt (new_Response (JSON_text (Obj [(''signedUrl'', Str ''https://r2.example/signed'')]))
        \<lparr>init_status = None, init_headers = Some json_headers\<rparr>),
      [GetSignedUrl (UploadPartCommand ''large-video=uploads'' (Str ''uploads/abc.mp4'')
         (Num (Finite (- 1))) (Str ''U1'')) 3600])"
  by (simp add: fetch_not_options try_block_sign_part sign_request_route sign_part_def
      searchParams_sign_request Number_js_minus_1 nullable_def stub_backend_def)

lemma status_rejection:
  "status (withCors rt (new_Response b \<lparr>init_status = Some s, init_headers = h\<rparr>)) =
     (if getters_on_prototype rt then 200 else s)"
  by (simp add: status_withCors new_Response_def)

lemma runtime_flags:
  "getters_on_prototype standard_runtime" "\<not> getters_on_prototype legacy_runtime"
  by (simp_all add: standard_runtime_def legacy_runtime_def)

lemma unparsable_route:
  "method unparsable_complete_request \<noteq> ''OPTIONS''"
  "pathname unparsable_complete_request = ''/complete''"
  "json unparsable_complete_request = Inl syntax_error"
  by (simp_all add: unparsable_complete_request_def)

lemma complete_unparsable: "json rq = Inl err \<Longrightarrow> complete rt s3 rq = (Inl err, [])"
  by (simp add: complete_def)

lemma complete_null_body:
  "json rq = Inr Null \<Longrightarrow> complete rt s3 rq = (Inl (type_error rt ''key''), [])"
  by (simp add: complete_def invalid_body_null)

lemma fetch_unparsable:
  "fetch rt s3 unparsable_complete_request = (catch_handler rt syntax_error, [])"
  by (simp add: fetch_not_options try_block_complete complete_unparsable unparsable_route)

lemma options_request_method: "method options_request = ''OPTIONS''"
  by (simp add: options_request_def)

lemma fetch_complete_reversed:
  "snd (fetch rt s3 (complete_request reversed_manifest)) =
   [Send (CompleteMultipartUploadCommand ''large-video-uploads'' (Str ''uploads/abc.mp4'')
      (Str ''U1'')
      [\<lparr>ETag = Str ''e2'', PartNumber = Num (Finite 2)\<rparr>,
       \<lparr>ETag = Str ''e1'', PartNumber = Num (Finite 1)\<rparr>])]"
  using complete_forwarded [of "complete_request reversed_manifest" reversed_manifest
      "[manifest_entry ''e2'' 2, manifest_entry ''e1'' 1]" rt s3]
  by (simp add: snd_fetch_not_options try_block_complete complete_request_route member_manifest
      to_part_manifest_entry manifest_not_null manifest_entry_not_null)

lemma fetch_complete_failing:
  "fetch rt failing_backend (complete_request one_part_manifest) =
   (catch_handler rt session_not_found,
    [Send (CompleteMultipartUploadCommand ''large-video-uploads'' (Str ''uploads/abc.mp4'')
       (Str ''U1'') [\<lparr>ETag = Str ''e1'', PartNumber = Num (Finite 1)\<rparr>])])"
proof -
  have c: "snd (try_block rt failing_backend (complete_request one_part_manifest)) =
    [Send (CompleteMultipartUploadCommand ''large-video-uploads'' (Str ''uploads/abc.mp4'')
       (Str ''U1'') [\<lparr>ETag = Str ''e1'', PartNumber = Num (Finite 1)\<rparr>])]"
    using complete_forwarded [of "complete_request one_part_manifest" one_part_manifest
        "[manifest_entry ''e1'' 1]" rt failing_backend]
    by (simp add: try_block_complete complete_request_route member_manifest
        to_part_manifest_entry manifest_not_null manifest_entry_not_null)
  show ?thesis
    by (rule backend_error_caught [OF _ c])
       (simp_all add: complete_request_route failing_backend_def)
qed

lemma fetch_complete_rejected:
  "fetch rt s3 (complete_request empty_key_manifest) =
     (withCors rt (new_Response (Text ''Invalid request body'')
        \<lparr>init_status = Some 400, init_headers = None\<rparr>), [])"
proof -
  have "complete rt s3 (complete_request empty_key_manifest) =
     (Inr (withCors rt (new_Response (Text ''Invalid request body'')
        \<lparr>init_status = Some 400, init_headers = None\<rparr>)), [])"
    by (rule complete_rejected [where b = empty_key_manifest])
       (simp_all add: complete_request_route member_manifest manifest_not_null)
  then show ?thesis
    by (simp add: fetch_not_options try_block_complete complete_request_route)
qed

lemma fetch_complete_no_parts:
  "fetch rt s3 (complete_request no_parts_manifest) =
     (withCors rt (new_Response (Text ''Invalid request body'')
        \<lparr>init_status = Some 400, init_headers = None\<rparr>), [])"
proof -
  have "complete rt s3 (complete_request no_parts_manifest) =
     (Inr (withCors rt (new_Response (Text ''Invalid request body'')
        \<lparr>init_status = Some 400, init_headers = None\<rparr>)), [])"
    by (rule complete_rejected [where b = no_parts_manifest])
       (simp_all add: complete_request_route member_manifest manifest_not_null truthy_length_Arr)
  then show ?thesis
    by (simp add: fetch_not_options try_block_complete complete_request_route)
qed

section \<open>The properties of the specification\<close>

text \<open>
  C1 (the bucket is the same in all three phases). The handler names the bucket by a
  string literal in each branch, and the literal of the \<^verbatim>\<open>/sign-part\<close> branch differs from
  the other two: \<^verbatim>\<open>large-video=uploads\<close> against \<^verbatim>\<open>large-video-uploads\<close>. Evaluated on one
  request per phase, the bucket of the backend command is not the same string.
\<close>

theorem C1_buckets:
  "map (Bucket \<circ> call_command) (snd (fetch standard_runtime stub_backend initiate_request))
     = [''large-video-uploads'']
   \<and> map (Bucket \<circ> call_command) (snd (fetch standard_runtime stub_backend (sign_request ''1'')))
     = [''large-video=uploads'']
   \<and> map (Bucket \<circ> call_command)
       (snd (fetch standard_runtime stub_backend (complete_request one_part_manifest)))
     = [''large-video-uploads'']
   \<and> ''large-video=uploads'' \<noteq> ''large-video-uploads''"
proof -
  have i: "snd (fetch standard_runtime stub_backend initiate_request) =
      [Send (CreateMultipartUploadCommand ''large-video-uploads''
        (Str (''uploads/'' @ randomUUID standard_runtime @ ''.mp4'')))]"
    by (simp add: snd_fetch_not_options try_block_initiate initiate_request_route initiate_calls)
  have s: "snd (fetch standard_runtime stub_backend (sign_request ''1'')) =
      [GetSignedUrl (UploadPartCommand ''large-video=uploads'' (Str ''uploads/abc.mp4'')
         (Num (Finite 1)) (Str ''U1'')) 3600]"
    by (simp add: fetch_not_options try_block_sign_part sign_request_route sign_part_def
        searchParams_sign_request Number_js_1 nullable_def stub_backend_def)
  have c: "snd (fetch standard_runtime stub_backend (complete_request one_part_manifest)) =
      [Send (CompleteMultipartUploadCommand ''large-video-uploads'' (Str ''uploads/abc.mp4'')
         (Str ''U1'') [\<lparr>ETag = Str ''e1'', PartNumber = Num (Finite 1)\<rparr>])]"
    using complete_forwarded [of "complete_request one_part_manifest" one_part_manifest
        "[manifest_entry ''e1'' 1]" standard_runtime stub_backend]
    by (simp add: snd_fetch_not_options try_block_complete complete_request_route member_manifest
        to_part_manifest_entry manifest_not_null manifest_entry_not_null)
  show ?thesis by (simp add: i s c)
qed

text \<open>
  C2 (\<^verbatim>\<open>/sign-part\<close> rejects bad parameters before any backend call). The guard is
  \<^verbatim>\<open>!key || !uploadId || !partNumber\<close>: a truthiness test. It rejects a key or an upload
  id that is absent or empty, and a part number that is absent (\<^verbatim>\<open>Number(null)\<close> is 0),
  not numeric (\<^verbatim>\<open>NaN\<close>) or zero. Then the handler returns, through \<open>withCors\<close>, the
  response it builds with the text \<^verbatim>\<open>Missing parameters\<close> and status 400, and invokes no
  backend operation.
\<close>

theorem C2_sign_part_rejects:
  assumes "method rq \<noteq> ''OPTIONS''" and "pathname rq = ''/sign-part''"
    and "searchParams_get (searchParams rq) ''key'' \<in> {None, Some []}
       \<or> searchParams_get (searchParams rq) ''uploadId'' \<in> {None, Some []}
       \<or> searchParams_get (searchParams rq) ''partNumber'' = None
       \<or> Number_js (searchParams_get (searchParams rq) ''partNumber'') \<in> {NaN, Finite 0}"
  shows "fetch rt s3 rq =
     (withCors rt (new_Response (Text ''Missing parameters'')
        \<lparr>init_status = Some 400, init_headers = None\<rparr>), [])"
proof -
  from assms(3) have "searchParams_get (searchParams rq) ''key'' \<in> {None, Some []}
       \<or> searchParams_get (searchParams rq) ''uploadId'' \<in> {None, Some []}
       \<or> Number_js (searchParams_get (searchParams rq) ''partNumber'') \<in> {NaN, Finite 0}"
    by (auto simp: Number_js_null)
  then have "sign_part rt s3 rq =
     (Inr (withCors rt (new_Response (Text ''Missing parameters'')
        \<lparr>init_status = Some 400, init_headers = None\<rparr>)), [])"
    by (rule sign_part_rejected)
  with assms(1,2) show ?thesis
    by (simp add: fetch_not_options try_block_sign_part)
qed

text \<open>
  The theorem at \<^verbatim>\<open>partNumber=0\<close> and at \<^verbatim>\<open>partNumber=abc\<close>, with a backend that would
  raise if it were called.
\<close>

theorem C2_sign_part_rejects_witness:
  "method (sign_request ''0'') \<noteq> ''OPTIONS'' \<and> pathname (sign_request ''0'') = ''/sign-part''
   \<and> Number_js (searchParams_get (searchParams (sign_request ''0'')) ''partNumber'') = Finite 0
   \<and> fetch standard_runtime failing_backend (sign_request ''0'') =
       (withCors standard_runtime (new_Response (Text ''Missing parameters'')
          \<lparr>init_status = Some 400, init_headers = None\<rparr>), [])
   \<and> method (sign_request ''abc'') \<noteq> ''OPTIONS'' \<and> pathname (sign_request ''abc'') = ''/sign-part''
   \<and> Number_js (searchParams_get (searchParams (sign_request ''abc'')) ''partNumber'') = NaN
   \<and> fetch standard_runtime failing_backend (sign_request ''abc'') =
       (withCors standard_runtime (new_Response (Text ''Missing parameters'')
          \<lparr>init_status = Some 400, init_headers = None\<rparr>), [])"
  using C2_sign_part_rejects [of "sign_request ''0''" standard_runtime failing_backend]
    C2_sign_part_rejects [of "sign_request ''abc''" standard_runtime failing_backend]
  by (simp add: sign_request_route searchParams_sign_request Number_js_0 Number_js_abc)

text \<open>
  A negative part number is truthy, so the guard lets it through: for
  \<^verbatim>\<open>partNumber=-1\<close> the signing operation is invoked with \<^verbatim>\<open>PartNumber: -1\<close>, and the
  response is not a 4xx one.
\<close>

theorem C2_negative_part_number:
  "Number_js (searchParams_get (searchParams (sign_request ''-1'')) ''partNumber'') = Finite (- 1)
   \<and> snd (fetch standard_runtime stub_backend (sign_request ''-1'')) =
       [GetSignedUrl (UploadPartCommand ''large-video=uploads'' (Str ''uploads/abc.mp4'')
          (Num (Finite (- 1))) (Str ''U1'')) 3600]
   \<and> \<not> is_4xx (status (fst (fetch standard_runtime stub_backend (sign_request ''-1''))))
   \<and> \<not> is_4xx (status (fst (fetch legacy_runtime stub_backend (sign_request ''-1''))))"
  by (simp add: fetch_sign_request_minus_1 searchParams_sign_request Number_js_minus_1
      status_withCors new_Response_def is_4xx_def)

text \<open>
  C3 (a malformed \<^verbatim>\<open>/complete\<close> body). When the body is not JSON text,
  \<^verbatim>\<open>await request.json()\<close> throws inside the \<^verbatim>\<open>try\<close> block. No backend operation has been
  invoked at that point, and the \<^verbatim>\<open>catch\<close> handler answers: through \<open>withCors\<close>, the
  response it builds with status 500 and the thrown error's message and stack.
\<close>

theorem C3_unparsable_body:
  assumes "method rq \<noteq> ''OPTIONS''" and "pathname rq = ''/complete''" and "json rq = Inl err"
  shows "fetch rt s3 rq =
     (withCors rt (new_Response
        (JSON_text (Obj [(''error'', Str (message err)), (''stack'', Str (stack err))]))
        \<lparr>init_status = Some 500, init_headers = Some json_headers\<rparr>), [])"
  using assms
  by (simp add: fetch_not_options try_block_complete complete_unparsable catch_handler_def)

theorem C3_unparsable_body_witness:
  "method unparsable_complete_request \<noteq> ''OPTIONS''
   \<and> pathname unparsable_complete_request = ''/complete''
   \<and> json unparsable_complete_request = Inl syntax_error
   \<and> fetch standard_runtime stub_backend unparsable_complete_request =
     (withCors standard_runtime (new_Response
        (JSON_text (Obj [(''error'', Str (message syntax_error)),
                         (''stack'', Str (stack syntax_error))]))
        \<lparr>init_status = Some 500, init_headers = Some json_headers\<rparr>), [])"
  using C3_unparsable_body [of unparsable_complete_request syntax_error standard_runtime stub_backend]
  by (simp add: unparsable_route)

text \<open>
  The status of that answer is not in the 4xx class: it is 500 where the status survives
  \<open>withCors\<close>, and the default 200 where it does not.
\<close>

theorem C3_unparsable_body_is_not_4xx:
  "snd (fetch legacy_runtime stub_backend unparsable_complete_request) = []
   \<and> status (fst (fetch legacy_runtime stub_backend unparsable_complete_request)) = 500
   \<and> \<not> is_4xx (status (fst (fetch legacy_runtime stub_backend unparsable_complete_request)))
   \<and> is_5xx (status (fst (fetch legacy_runtime stub_backend unparsable_complete_request)))
   \<and> \<not> is_4xx (status (fst (fetch standard_runtime stub_backend unparsable_complete_request)))"
  by (simp add: fetch_unparsable status_catch_handler runtime_flags is_4xx_def is_5xx_def)

text \<open>
  C4 (the order of the parts handed to the backend). The handler builds the list with
  \<^verbatim>\<open>body.parts.map(...)\<close> and does not sort it. For a request that passes the guard and
  whose \<^verbatim>\<open>parts\<close> is an array without \<^verbatim>\<open>null\<close> elements, the completion command carries
  one entry per element of the client's manifest, in the client's order; so its part
  numbers are the manifest's part numbers in the manifest's order.
\<close>

theorem C4_parts_in_client_order:
  assumes "method rq \<noteq> ''OPTIONS''" and "pathname rq = ''/complete''"
    and "json rq = Inr b" and "b \<noteq> Null" and "b \<noteq> Undefined"
    and "truthy (member b ''key'')" and "truthy (member b ''uploadId'')"
    and "member b ''parts'' = Arr xs" and "xs \<noteq> []"
    and "list_all (\<lambda>p. p \<noteq> Null \<and> p \<noteq> Undefined) xs"
  shows "snd (fetch rt s3 rq) =
     [Send (CompleteMultipartUploadCommand ''large-video-uploads''
        (member b ''key'') (member b ''uploadId'') (map to_part xs))]
   \<and> map PartNumber (map to_part xs) = map (\<lambda>p. member p ''partNumber'') xs"
proof -
  have "snd (complete rt s3 rq) =
     [Send (CompleteMultipartUploadCommand ''large-video-uploads''
        (member b ''key'') (member b ''uploadId'') (map to_part xs))]"
    using assms(3-10) by (rule complete_forwarded)
  with assms(1,2) show ?thesis
    by (simp add: snd_fetch_not_options try_block_complete to_part_def)
qed

theorem C4_parts_in_client_order_witness:
  "method (complete_request reversed_manifest) \<noteq> ''OPTIONS''
   \<and> pathname (complete_request reversed_manifest) = ''/complete''
   \<and> json (complete_request reversed_manifest) = Inr reversed_manifest
   \<and> reversed_manifest \<noteq> Null \<and> reversed_manifest \<noteq> Undefined
   \<and> truthy (member reversed_manifest ''key'')
   \<and> truthy (member reversed_manifest ''uploadId'')
   \<and> member reversed_manifest ''parts'' = Arr [manifest_entry ''e2'' 2, manifest_entry ''e1'' 1]
   \<and> [manifest_entry ''e2'' 2, manifest_entry ''e1'' 1] \<noteq> []
   \<and> list_all (\<lambda>p. p \<noteq> Null \<and> p \<noteq> Undefined) [manifest_entry ''e2'' 2, manifest_entry ''e1'' 1]
   \<and> snd (fetch standard_runtime stub_backend (complete_request reversed_manifest)) =
     [Send (CompleteMultipartUploadCommand ''large-video-uploads'' (Str ''uploads/abc.mp4'')
        (Str ''U1'') (map to_part [manifest_entry ''e2'' 2, manifest_entry ''e1'' 1]))]
   \<and> map PartNumber (map to_part [manifest_entry ''e2'' 2, manifest_entry ''e1'' 1]) =
       [Num (Finite 2), Num (Finite 1)]"
  using C4_parts_in_client_order [of "complete_request reversed_manifest" reversed_manifest
      "[manifest_entry ''e2'' 2, manifest_entry ''e1'' 1]" standard_runtime stub_backend]
  by (simp add: complete_request_route member_manifest manifest_not_null manifest_entry_not_null
      to_part_manifest_entry)

text \<open>
  A manifest that lists part 2 before part 1 reaches the backend in that order, which is
  not ascending.
\<close>

theorem C4_reversed_manifest_not_sorted:
  "snd (fetch standard_runtime stub_backend (complete_request reversed_manifest)) =
   [Send (CompleteMultipartUploadCommand ''large-video-uploads'' (Str ''uploads/abc.mp4'')
      (Str ''U1'')
      [\<lparr>ETag = Str ''e2'', PartNumber = Num (Finite 2)\<rparr>,
       \<lparr>ETag = Str ''e1'', PartNumber = Num (Finite 1)\<rparr>])]
   \<and> \<not> ascending [\<lparr>ETag = Str ''e2'', PartNumber = Num (Finite 2)\<rparr>,
                    \<lparr>ETag = Str ''e1'', PartNumber = Num (Finite 1)\<rparr>]"
  by (simp add: fetch_complete_reversed ascending_def)

text \<open>
  C5 (\<^verbatim>\<open>/complete\<close> rejects an empty key, upload id or parts list with a 4xx response and
  without a backend call). The branch builds \<^verbatim>\<open>new Response("Invalid request body",
  { status: 400 })\<close> and invokes no backend operation (\<open>complete_rejected\<close>). It returns
  that response through \<open>withCors\<close>, which builds a new response from
  \<^verbatim>\<open>{ ...response, headers }\<close>. Where \<^verbatim>\<open>status\<close> is an accessor on the prototype the spread
  does not carry it, and the response that leaves the handler has the default status 200;
  where it is an own property the status is 400 (\<open>status_rejection\<close>). Evaluated on a
  manifest with an empty key and on one with no parts:
\<close>

theorem C5_rejection_status:
  "status (fst (fetch standard_runtime stub_backend (complete_request empty_key_manifest))) = 200
   \<and> body (fst (fetch standard_runtime stub_backend (complete_request empty_key_manifest))) =
       Text ''Invalid request body''
   \<and> snd (fetch standard_runtime stub_backend (complete_request empty_key_manifest)) = []
   \<and> status (fst (fetch standard_runtime stub_backend (complete_request no_parts_manifest))) = 200
   \<and> snd (fetch standard_runtime stub_backend (complete_request no_parts_manifest)) = []
   \<and> \<not> is_4xx 200
   \<and> status (fst (fetch legacy_runtime stub_backend (complete_request empty_key_manifest))) = 400"
  by (simp add: fetch_complete_rejected fetch_complete_no_parts status_withCors body_withCors
      new_Response_def runtime_flags is_4xx_def)

text \<open>
  C6 (the key \<^verbatim>\<open>/initiate\<close> returns). When the backend opens the session, the \<^verbatim>\<open>key\<close> member
  of the JSON answer is \<^verbatim>\<open>uploads/\<close>, then the identifier \<^verbatim>\<open>crypto.randomUUID()\<close> returned,
  then \<^verbatim>\<open>.mp4\<close>: a non-empty string with that prefix and that suffix.
\<close>

theorem C6_initiate_key:
  assumes "method rq \<noteq> ''OPTIONS''" and "pathname rq = ''/initiate''"
    and "send s3 (CreateMultipartUploadCommand ''large-video-uploads''
           (Str (''uploads/'' @ randomUUID rt @ ''.mp4''))) = Inr res"
  shows "\<exists>k. response_member (fst (fetch rt s3 rq)) ''key'' = Str k
           \<and> k = ''uploads/'' @ randomUUID rt @ ''.mp4''
           \<and> k \<noteq> [] \<and> prefix ''uploads/'' k \<and> suffix ''.mp4'' k"
proof -
  have "fst (try_block rt s3 rq) =
     Inr (withCors rt (new_Response
       (JSON_text (Obj [(''uploadId'', optional (UploadId res)),
                        (''key'', Str (''uploads/'' @ randomUUID rt @ ''.mp4''))]))
       \<lparr>init_status = None, init_headers = Some json_headers\<rparr>))"
    using assms(2,3) by (simp add: try_block_initiate initiate_ok)
  with assms(1) have "fst (fetch rt s3 rq) = withCors rt (new_Response
       (JSON_text (Obj [(''uploadId'', optional (UploadId res)),
                        (''key'', Str (''uploads/'' @ randomUUID rt @ ''.mp4''))]))
       \<lparr>init_status = None, init_headers = Some json_headers\<rparr>)"
    by (rule fst_fetch_returned)
  then have "response_member (fst (fetch rt s3 rq)) ''key'' =
      Str (''uploads/'' @ randomUUID rt @ ''.mp4'')"
    by (simp add: response_member_def body_withCors new_Response_def member_def)
  moreover have "suffix ''.mp4'' (''uploads/'' @ randomUUID rt @ ''.mp4'')"
    by (simp add: suffix_def)
  ultimately show ?thesis by simp
qed

theorem C6_initiate_key_witness:
  "method initiate_request \<noteq> ''OPTIONS'' \<and> pathname initiate_request = ''/initiate''
   \<and> send stub_backend (CreateMultipartUploadCommand ''large-video-uploads''
        (Str (''uploads/'' @ randomUUID standard_runtime @ ''.mp4''))) =
      Inr \<lparr>UploadId = Some ''U1'', Location = Some ''https://r2.example/uploads/abc.mp4''\<rparr>
   \<and> response_member (fst (fetch standard_runtime stub_backend initiate_request)) ''key'' =
      Str ''uploads/123e4567-e89b-42d3-a456-426614174000.mp4''"
  using C6_initiate_key [of initiate_request stub_backend standard_runtime
      "\<lparr>UploadId = Some ''U1'', Location = Some ''https://r2.example/uploads/abc.mp4''\<rparr>"]
  by (simp add: initiate_request_route stub_backend_def standard_runtime_def)

text \<open>
  C7 (a backend error becomes a 5xx response with the error's message). Whenever the one
  backend operation of a request raises, the handler answers with \<open>catch_handler\<close> on that
  error and has invoked that one operation only (\<open>backend_error_caught\<close>,
  \<open>try_block_one_call\<close>); the body carries the message unchanged (\<open>body_catch_handler\<close>).
  The \<^verbatim>\<open>catch\<close> handler asks for status 500, and returns through \<open>withCors\<close>: as for C5,
  the status that leaves the handler is 200 where the spread does not carry it
  (\<open>status_catch_handler\<close>). Evaluated on a completion that the backend answers with
  \<^verbatim>\<open>session not found\<close>:
\<close>

theorem C7_backend_error_status:
  "status (fst (fetch standard_runtime failing_backend (complete_request one_part_manifest))) = 200
   \<and> body (fst (fetch standard_runtime failing_backend (complete_request one_part_manifest))) =
       JSON_text (Obj [(''error'', Str ''session not found''),
                       (''stack'', Str ''Error: session not found at send'')])
   \<and> snd (fetch standard_runtime failing_backend (complete_request one_part_manifest)) =
       [Send (CompleteMultipartUploadCommand ''large-video-uploads'' (Str ''uploads/abc.mp4'')
          (Str ''U1'') [\<lparr>ETag = Str ''e1'', PartNumber = Num (Finite 1)\<rparr>])]
   \<and> \<not> is_5xx 200
   \<and> status (fst (fetch legacy_runtime failing_backend (complete_request one_part_manifest))) = 500"
  by (simp add: fetch_complete_failing status_catch_handler body_catch_handler runtime_flags
      session_not_found_def is_5xx_def)

text \<open>
  C8 (the preflight answer). For the method \<^verbatim>\<open>OPTIONS\<close>, whatever the path and the backend,
  the handler returns \<^verbatim>\<open>new Response(null, { headers })\<close>: status 200, no body, the three
  cross-origin headers, and no backend operation.
\<close>

theorem C8_options_preflight:
  assumes "method rq = ''OPTIONS''"
  shows "fetch rt s3 rq = (\<lparr>status = 200, headers = cors_headers, body = NoBody\<rparr>, [])
    \<and> is_2xx (status (fst (fetch rt s3 rq)))
    \<and> headers_get (headers (fst (fetch rt s3 rq))) ''Access-Control-Allow-Origin'' = Some ''*''
    \<and> headers_get (headers (fst (fetch rt s3 rq))) ''Access-Control-Allow-Methods'' =
        Some ''GET,POST,OPTIONS''
    \<and> headers_get (headers (fst (fetch rt s3 rq))) ''Access-Control-Allow-Headers'' =
        Some ''Content-Type''"
  using assms by (simp add: fetch_def new_Response_def is_2xx_def headers_get_def)

theorem C8_options_preflight_witness:
  "method options_request = ''OPTIONS'' \<and> pathname options_request = ''/complete''
   \<and> fetch standard_runtime failing_backend options_request =
       (\<lparr>status = 200, headers = cors_headers, body = NoBody\<rparr>, [])"
  using C8_options_preflight [of options_request standard_runtime failing_backend]
  by (simp add: options_request_def)

text \<open>
  C9 (every response carries the cross-origin headers). The preflight answer is built with
  them; every other response, returned or built by the \<^verbatim>\<open>catch\<close> handler, leaves through
  \<open>withCors\<close>, which sets the three.
\<close>

theorem C9_cors_on_every_response:
  "headers_get (headers (fst (fetch rt s3 rq))) ''Access-Control-Allow-Origin'' = Some ''*''
   \<and> headers_get (headers (fst (fetch rt s3 rq))) ''Access-Control-Allow-Methods'' =
       Some ''GET,POST,OPTIONS''
   \<and> headers_get (headers (fst (fetch rt s3 rq))) ''Access-Control-Allow-Headers'' =
       Some ''Content-Type''"
proof (cases "method rq = ''OPTIONS''")
  case True
  then show ?thesis
    by (simp add: fetch_def new_Response_def headers_get_def)
next
  case False
  obtain x calls where t: "try_block rt s3 rq = (x, calls)"
    by (cases "try_block rt s3 rq")
  show ?thesis
  proof (cases x)
    case (Inl err)
    with False t have "fst (fetch rt s3 rq) = catch_handler rt err"
      by (simp add: fetch_def)
    then show ?thesis
      by (simp add: catch_handler_def cors_withCors)
  next
    case (Inr r)
    with t obtain r0 where "r = withCors rt r0"
      using try_block_returns_withCors by blast
    moreover from False t Inr have "fst (fetch rt s3 rq) = r"
      by (simp add: fetch_def)
    ultimately show ?thesis
      by (simp add: cors_withCors)
  qed
qed

text \<open>
  C10 (the stack trace is in the error body). When the \<^verbatim>\<open>try\<close> block throws, the response
  is the one the \<^verbatim>\<open>catch\<close> handler builds with status 500, passed through \<open>withCors\<close>; its
  body is the JSON text of an object whose \<^verbatim>\<open>error\<close> is the message and whose \<^verbatim>\<open>stack\<close> is
  the stack of what was thrown.
\<close>

theorem C10_stack_in_error_body:
  assumes "method rq \<noteq> ''OPTIONS''" and "fst (try_block rt s3 rq) = Inl err"
  shows "fst (fetch rt s3 rq) =
       withCors rt (new_Response
         (JSON_text (Obj [(''error'', Str (message err)), (''stack'', Str (stack err))]))
         \<lparr>init_status = Some 500, init_headers = Some json_headers\<rparr>)
     \<and> body (fst (fetch rt s3 rq)) =
         JSON_text (Obj [(''error'', Str (message err)), (''stack'', Str (stack err))])
     \<and> response_member (fst (fetch rt s3 rq)) ''error'' = Str (message err)
     \<and> response_member (fst (fetch rt s3 rq)) ''stack'' = Str (stack err)"
proof -
  from assms have f: "fst (fetch rt s3 rq) = catch_handler rt err"
    by (rule fst_fetch_thrown)
  then show ?thesis
    by (simp add: response_member_def body_catch_handler member_def) (simp add: catch_handler_def)
qed

theorem C10_stack_in_error_body_witness:
  "method unparsable_complete_request \<noteq> ''OPTIONS''
   \<and> fst (try_block standard_runtime stub_backend unparsable_complete_request) = Inl syntax_error
   \<and> response_member (fst (fetch standard_runtime stub_backend unparsable_complete_request)) ''stack''
      = Str ''SyntaxError: Unexpected token o in JSON at position 1''
   \<and> response_member (fst (fetch standard_runtime stub_backend unparsable_complete_request)) ''error''
      = Str ''Unexpected token o in JSON at position 1''"
  using C10_stack_in_error_body [of unparsable_complete_request standard_runtime stub_backend syntax_error]
  by (simp add: unparsable_route try_block_complete complete_unparsable syntax_error_def
      response_member_def body_withCors new_Response_def member_def)

end
